theory Spec2Isabelle
  imports Complex_Main
begin

section \<open>Invoice server actions (app/lib/actions.ts)\<close>

text \<open>
  The module exports four server actions: \<open>createInvoice\<close>, \<open>updateInvoice\<close>,
  \<open>deleteInvoice\<close> and \<open>authenticate\<close>. They validate form fields with a zod schema,
  issue one SQL statement, invalidate a cached path and redirect. The embedding below
  makes each of these effects explicit: the database is a list of rows, every call to
  \<open>sql\<close>, \<open>console.log\<close>, \<open>revalidatePath\<close> and \<open>redirect\<close> is appended to a trace,
  and an exception of the SQL client or of \<open>signIn\<close> is an outcome chosen by the
  environment.

  Strings are lists of 8-bit code units, so the model covers the strings whose code
  units are below 256. A JavaScript number is \<open>NaN\<close>, an infinity, or the rational
  value of a finite binary64 double; every conversion and product rounds to binary64
  (nearest, ties to even, with subnormals and overflow to infinity). The two zeros are
  not told apart.
\<close>

subsection \<open>JavaScript numbers and \<open>Number(...)\<close>\<close>

datatype js_number = NaN | PosInfinity | NegInfinity | Finite rat

definition js_negate :: "js_number \<Rightarrow> js_number" where
  "js_negate x = (case x of NaN \<Rightarrow> NaN | PosInfinity \<Rightarrow> NegInfinity
     | NegInfinity \<Rightarrow> PosInfinity | Finite r \<Rightarrow> Finite (- r))"

text \<open>
  Rounding a rational to binary64. For a positive fraction \<open>n / d\<close>, \<open>floor_log2\<close> is
  the exponent \<open>e\<close> with \<open>2 ^ e \<le> n / d < 2 ^ (e + 1)\<close>, found from the bit lengths of
  \<open>n\<close> and \<open>d\<close>. The unit in the last place is \<open>2 ^ (e - 52)\<close>, and never below
  \<open>2 ^ (- 1074)\<close>; the significand is \<open>n / d\<close> divided by that unit and rounded to the
  nearest integer, a tie going to the even one; a result of \<open>2 ^ 1024\<close> or more is
  \<open>Infinity\<close>.
\<close>

function bit_length :: "int \<Rightarrow> int" where
  "bit_length n = (if n \<le> 0 then 0 else 1 + bit_length (n div 2))"
  by pat_completeness auto
termination
  by (relation "measure nat") auto

declare bit_length.simps [simp del]

definition pow2 :: "int \<Rightarrow> rat" where
  "pow2 e = (if 0 \<le> e then 2 ^ nat e else 1 / 2 ^ nat (- e))"

definition round_half_even :: "int \<Rightarrow> int \<Rightarrow> int" where
  "round_half_even num den =
     (if den < 2 * (num mod den) \<or> (2 * (num mod den) = den \<and> odd (num div den))
      then num div den + 1 else num div den)"

definition floor_log2_near :: "int \<Rightarrow> int \<Rightarrow> int \<Rightarrow> int" where
  "floor_log2_near n d e0 = (if d * 2 ^ nat e0 \<le> n * 2 ^ nat (- e0) then e0 else e0 - 1)"

definition floor_log2 :: "int \<Rightarrow> int \<Rightarrow> int" where
  "floor_log2 n d = floor_log2_near n d (bit_length n - bit_length d)"

definition binary64_ulp_exponent :: "int \<Rightarrow> int \<Rightarrow> int" where
  "binary64_ulp_exponent n d = max (floor_log2 n d) (- 1022) - 52"

definition binary64_significand :: "int \<Rightarrow> int \<Rightarrow> int \<Rightarrow> int" where
  "binary64_significand n d s = round_half_even (n * 2 ^ nat (- s)) (d * 2 ^ nat s)"

definition binary64_value :: "int \<Rightarrow> int \<Rightarrow> js_number" where
  "binary64_value m s =
     (if 2 ^ 1024 \<le> of_int m * pow2 s then PosInfinity else Finite (of_int m * pow2 s))"

definition binary64_pos :: "int \<Rightarrow> int \<Rightarrow> js_number" where
  "binary64_pos n d =
     binary64_value (binary64_significand n d (binary64_ulp_exponent n d))
       (binary64_ulp_exponent n d)"

definition binary64_fraction :: "int \<Rightarrow> int \<Rightarrow> js_number" where
  "binary64_fraction a b =
     (if a = 0 then Finite 0
      else if 0 < a then binary64_pos a b
      else js_negate (binary64_pos (- a) b))"

definition binary64 :: "rat \<Rightarrow> js_number" where
  "binary64 r = binary64_fraction (fst (quotient_of r)) (snd (quotient_of r))"

text \<open>
  The product \<open>x * y\<close> of two numbers (only \<open>data.amount * 100\<close> occurs): the exact
  product of two finite values, rounded.
\<close>

definition js_sign :: "js_number \<Rightarrow> int" where
  "js_sign x = (case x of NaN \<Rightarrow> 0 | PosInfinity \<Rightarrow> 1 | NegInfinity \<Rightarrow> - 1
     | Finite r \<Rightarrow> (if r < 0 then - 1 else if r = 0 then 0 else 1))"

definition js_times :: "js_number \<Rightarrow> js_number \<Rightarrow> js_number" where
  "js_times x y =
     (case (x, y) of
        (Finite a, Finite b) \<Rightarrow> binary64 (a * b)
      | (NaN, _) \<Rightarrow> NaN
      | (_, NaN) \<Rightarrow> NaN
      | _ \<Rightarrow> (if js_sign x * js_sign y = 0 then NaN
              else if js_sign x * js_sign y < 0 then NegInfinity else PosInfinity))"

text \<open>
  \<open>Math.round\<close>: the nearest integer, a tie going towards \<open>+\<infinity>\<close>. The result is
  exact: a double of magnitude \<open>2 ^ 52\<close> or more is an integer already.
\<close>

definition Math_round :: "js_number \<Rightarrow> js_number" where
  "Math_round x = (case x of Finite r \<Rightarrow> Finite (of_int \<lfloor>r + 1 / 2\<rfloor>) | _ \<Rightarrow> x)"

text \<open>The comparison \<open>x <= y\<close>; it is false as soon as one side is \<open>NaN\<close>.\<close>

definition js_le :: "js_number \<Rightarrow> js_number \<Rightarrow> bool" where
  "js_le x y =
     (case (x, y) of
        (NaN, _) \<Rightarrow> False
      | (_, NaN) \<Rightarrow> False
      | (Finite a, Finite b) \<Rightarrow> a \<le> b
      | (NegInfinity, _) \<Rightarrow> True
      | (_, PosInfinity) \<Rightarrow> True
      | _ \<Rightarrow> False)"

text \<open>
  \<open>StringToNumber\<close> of ECMAScript: white space is trimmed, the empty string is \<open>0\<close>,
  then either a \<open>0x\<close>, \<open>0o\<close> or \<open>0b\<close> literal, or an optionally signed \<open>Infinity\<close>
  or decimal literal with optional fraction and exponent; anything else is \<open>NaN\<close>.
  The value of a literal is rounded to binary64.
\<close>

definition is_str_whitespace :: "char \<Rightarrow> bool" where
  "is_str_whitespace c = ((of_char c :: nat) \<in> {9, 10, 11, 12, 13, 32, 160})"

definition str_trim :: "string \<Rightarrow> string" where
  "str_trim s = rev (dropWhile is_str_whitespace (rev (dropWhile is_str_whitespace s)))"

definition is_decimal_digit :: "char \<Rightarrow> bool" where
  "is_decimal_digit c = (48 \<le> (of_char c :: nat) \<and> (of_char c :: nat) \<le> 57)"

definition digits_value :: "string \<Rightarrow> nat" where
  "digits_value ds = foldl (\<lambda>a c. 10 * a + (of_char c - 48)) 0 ds"

definition radix_digit :: "nat \<Rightarrow> char \<Rightarrow> nat option" where
  "radix_digit base c =
     (let n = (of_char c :: nat);
          v = (if 48 \<le> n \<and> n \<le> 57 then Some (n - 48)
               else if 97 \<le> n \<and> n \<le> 102 then Some (n - 87)
               else if 65 \<le> n \<and> n \<le> 70 then Some (n - 55)
               else None)
      in case v of None \<Rightarrow> None | Some d \<Rightarrow> if d < base then Some d else None)"

fun radix_value :: "nat \<Rightarrow> nat \<Rightarrow> string \<Rightarrow> nat option" where
  "radix_value base acc [] = Some acc"
| "radix_value base acc (c # cs) =
     (case radix_digit base c of
        None \<Rightarrow> None
      | Some d \<Rightarrow> radix_value base (base * acc + d) cs)"

definition radix_prefix :: "char \<Rightarrow> nat option" where
  "radix_prefix p =
     (if p = CHR ''x'' \<or> p = CHR ''X'' then Some 16
      else if p = CHR ''o'' \<or> p = CHR ''O'' then Some 8
      else if p = CHR ''b'' \<or> p = CHR ''B'' then Some 2
      else None)"

definition signed_integer :: "string \<Rightarrow> int option" where
  "signed_integer u =
     (let (neg, ds) = (case u of
                         [] \<Rightarrow> (False, [])
                       | c # d \<Rightarrow> if c = CHR ''+'' then (False, d)
                                  else if c = CHR ''-'' then (True, d)
                                  else (False, u))
      in if ds \<noteq> [] \<and> list_all is_decimal_digit ds
         then Some (if neg then - int (digits_value ds) else int (digits_value ds))
         else None)"

definition exponent_part :: "string \<Rightarrow> int option" where
  "exponent_part r =
     (case r of
        [] \<Rightarrow> Some 0
      | c # u \<Rightarrow> if c = CHR ''e'' \<or> c = CHR ''E'' then signed_integer u else None)"

definition pow10 :: "int \<Rightarrow> rat" where
  "pow10 e = (if 0 \<le> e then 10 ^ nat e else 1 / 10 ^ nat (- e))"

definition str_unsigned_decimal :: "string \<Rightarrow> rat option" where
  "str_unsigned_decimal t =
     (let ip = takeWhile is_decimal_digit t;
          r1 = dropWhile is_decimal_digit t;
          (fp, r2) = (case r1 of
                        [] \<Rightarrow> ([], [])
                      | c # u \<Rightarrow> if c = CHR ''.''
                                 then (takeWhile is_decimal_digit u, dropWhile is_decimal_digit u)
                                 else ([], r1))
      in if ip = [] \<and> fp = [] then None
         else case exponent_part r2 of
                None \<Rightarrow> None
              | Some e \<Rightarrow>
                  Some (of_nat (digits_value (ip @ fp)) / 10 ^ length fp * pow10 e))"

definition str_unsigned_literal :: "string \<Rightarrow> js_number" where
  "str_unsigned_literal t =
     (if t = ''Infinity'' then PosInfinity
      else case str_unsigned_decimal t of None \<Rightarrow> NaN | Some r \<Rightarrow> binary64 r)"

definition str_decimal_literal :: "string \<Rightarrow> js_number" where
  "str_decimal_literal s =
     (case s of
        [] \<Rightarrow> NaN
      | c # t \<Rightarrow> if c = CHR ''+'' then str_unsigned_literal t
                 else if c = CHR ''-'' then js_negate (str_unsigned_literal t)
                 else str_unsigned_literal s)"

definition non_decimal_literal :: "string \<Rightarrow> js_number option" where
  "non_decimal_literal s =
     (case s of
        c # p # ds \<Rightarrow>
          (if c = CHR ''0'' then
             (case radix_prefix p of
                None \<Rightarrow> None
              | Some base \<Rightarrow>
                  Some (if ds = [] then NaN
                        else case radix_value base 0 ds of
                               None \<Rightarrow> NaN
                             | Some n \<Rightarrow> binary64 (of_nat n)))
           else None)
      | _ \<Rightarrow> None)"

definition StringToNumber :: "string \<Rightarrow> js_number" where
  "StringToNumber s =
     (let t = str_trim s
      in if t = [] then Finite 0
         else case non_decimal_literal t of
                Some n \<Rightarrow> n
              | None \<Rightarrow> str_decimal_literal t)"

subsection \<open>Form data\<close>

text \<open>
  A \<open>FormData\<close> is an ordered list of entries; \<open>formData.get(name)\<close> is the value of
  the first entry of that name, or \<open>null\<close> (here \<open>None\<close>). An entry's value is a string
  or a \<open>File\<close>.
\<close>

datatype form_entry = StringEntry string | FileEntry string

type_synonym form_data = "(string \<times> form_entry) list"

definition formData_get :: "form_data \<Rightarrow> string \<Rightarrow> form_entry option" where
  "formData_get formData name = map_of formData name"

text \<open>
  \<open>Number(v)\<close> for the values \<open>formData.get\<close> can return: \<open>null\<close> is \<open>0\<close>, a
  string goes through \<open>StringToNumber\<close>, a \<open>File\<close> object converts to the string
  \<open>[object File]\<close> and so to \<open>NaN\<close>.
\<close>

definition js_Number :: "form_entry option \<Rightarrow> js_number" where
  "js_Number v =
     (case v of
        None \<Rightarrow> Finite 0
      | Some (StringEntry s) \<Rightarrow> StringToNumber s
      | Some (FileEntry f) \<Rightarrow> NaN)"

subsection \<open>The zod schema\<close>

text \<open>
  The three schema constructors \<open>InvoiceFormSchema\<close> uses, with the semantics of zod 3
  (the version whose \<open>invalid_type_error\<close> option the source passes). Each returns the
  parsed value or the messages of its issues.
  \<^item> \<open>z.string({invalid_type_error})\<close> accepts every string, the empty one too, and
    reports \<open>invalid_type_error\<close> for a value that is not a string (and not
    \<open>undefined\<close>, which \<open>formData.get\<close> never returns).
  \<^item> \<open>z.coerce.number().gt(b, {message})\<close> applies \<open>Number\<close> first; \<open>NaN\<close> is an
    \<open>invalid_type\<close> issue with zod's default message, and a number \<open><= b\<close> is a
    \<open>too_small\<close> issue with \<open>message\<close>.
  \<^item> \<open>z.enum(values, {invalid_type_error})\<close> reports \<open>invalid_type_error\<close> for a
    value that is not a string, and an \<open>invalid_enum_value\<close> issue with zod's default
    message for a string that is not one of \<open>values\<close>.
\<close>

definition z_string :: "string \<Rightarrow> form_entry option \<Rightarrow> string list + string" where
  "z_string invalid_type_error v =
     (case v of
        Some (StringEntry s) \<Rightarrow> Inr s
      | _ \<Rightarrow> Inl [invalid_type_error])"

definition z_coerce_number_gt :: "rat \<Rightarrow> string \<Rightarrow> form_entry option \<Rightarrow> string list + js_number" where
  "z_coerce_number_gt bound msg v =
     (let n = js_Number v
      in if n = NaN then Inl [''Expected number, received nan'']
         else if js_le n (Finite bound) then Inl [msg]
         else Inr n)"

definition js_quote :: "string \<Rightarrow> string" where
  "js_quote s = [CHR 0x27] @ s @ [CHR 0x27]"

fun join_with :: "string \<Rightarrow> string list \<Rightarrow> string" where
  "join_with sep [] = []"
| "join_with sep [x] = x"
| "join_with sep (x # y # ys) = x @ sep @ join_with sep (y # ys)"

definition joinValues :: "string list \<Rightarrow> string" where
  "joinValues vs = join_with '' | '' (map js_quote vs)"

definition invalid_enum_value_message :: "string list \<Rightarrow> string \<Rightarrow> string" where
  "invalid_enum_value_message options received =
     ''Invalid enum value. Expected '' @ joinValues options @ '', received '' @ js_quote received"

definition z_enum :: "string list \<Rightarrow> string \<Rightarrow> form_entry option \<Rightarrow> string list + string" where
  "z_enum vals invalid_type_error v =
     (case v of
        Some (StringEntry s) \<Rightarrow>
          if s \<in> set vals then Inr s else Inl [invalid_enum_value_message vals s]
      | _ \<Rightarrow> Inl [invalid_type_error])"

text \<open>
  \<open>ActionState\<close>, and \<open>error.flatten().fieldErrors\<close>: a field has an entry exactly
  when it has an issue.
\<close>

record field_errors =
  customerId :: "string list option"
  amount :: "string list option"
  status :: "string list option"

record action_state =
  message :: "string option"
  errors :: "field_errors option"

record invoice_data =
  data_customerId :: string
  data_amount :: js_number
  data_status :: string

definition issues_of :: "string list + 'a \<Rightarrow> string list option" where
  "issues_of r = (case r of Inl msgs \<Rightarrow> Some msgs | Inr _ \<Rightarrow> None)"

text \<open>
  \<open>InvoiceFormSchema.omit({id: true, date: true})\<close>: the object schema of the three
  remaining fields, parsed in the order of the shape; the issues of all fields are
  collected.
\<close>

definition InvoiceFormSchema_safeParse ::
  "form_entry option \<Rightarrow> form_entry option \<Rightarrow> form_entry option \<Rightarrow> field_errors + invoice_data" where
  "InvoiceFormSchema_safeParse c a s =
     (let pc = z_string ''Please select a customer.'' c;
          pa = z_coerce_number_gt 0 ''Please enter an amount greater than $0.'' a;
          ps = z_enum [''pending'', ''paid''] ''Please select an invoice status'' s
      in case (pc, pa, ps) of
           (Inr c', Inr a', Inr s') \<Rightarrow>
             Inr \<lparr>data_customerId = c', data_amount = a', data_status = s'\<rparr>
         | _ \<Rightarrow>
             Inl \<lparr>customerId = issues_of pc, amount = issues_of pa, status = issues_of ps\<rparr>)"

definition CreateInvoice_safeParse ::
  "form_entry option \<Rightarrow> form_entry option \<Rightarrow> form_entry option \<Rightarrow> field_errors + invoice_data" where
  "CreateInvoice_safeParse = InvoiceFormSchema_safeParse"

definition UpdateInvoice_safeParse ::
  "form_entry option \<Rightarrow> form_entry option \<Rightarrow> form_entry option \<Rightarrow> field_errors + invoice_data" where
  "UpdateInvoice_safeParse = InvoiceFormSchema_safeParse"

subsection \<open>The database, the trace of effects and the environment\<close>

record invoice_row =
  row_id :: string
  row_customer_id :: string
  row_amount :: js_number
  row_status :: string
  row_date :: string

text \<open>The three statements of the module, with their parameters in source order.\<close>

datatype sql_statement =
    InsertInvoice string js_number string string
  | UpdateInvoiceWhereId string js_number string string
  | DeleteInvoiceWhereId string

datatype event = Sql sql_statement | ConsoleLog | RevalidatePath string | Redirect string

record world =
  invoices :: "invoice_row list"
  trace :: "event list"

text \<open>
  What the handlers cannot decide: whether the SQL client throws on a statement, the
  identifier the table generates for a new row, and the clock. A statement that throws
  changes no row. \<open>console.log\<close> and \<open>revalidatePath\<close> do not throw.
\<close>

record environment =
  sql_throws :: "sql_statement \<Rightarrow> invoice_row list \<Rightarrow> bool"
  generated_id :: string
  now_iso :: string

definition run_statement :: "environment \<Rightarrow> sql_statement \<Rightarrow> invoice_row list \<Rightarrow> invoice_row list" where
  "run_statement env stmt rows =
     (case stmt of
        InsertInvoice c a s d \<Rightarrow>
          rows @ [\<lparr>row_id = generated_id env, row_customer_id = c, row_amount = a,
                   row_status = s, row_date = d\<rparr>]
      | UpdateInvoiceWhereId c a s i \<Rightarrow>
          map (\<lambda>r. if row_id r = i
                    then r\<lparr>row_customer_id := c, row_amount := a, row_status := s\<rparr>
                    else r) rows
      | DeleteInvoiceWhereId i \<Rightarrow> filter (\<lambda>r. row_id r \<noteq> i) rows)"

datatype sql_result = QueryOk | QueryError

definition sql :: "environment \<Rightarrow> sql_statement \<Rightarrow> world \<Rightarrow> sql_result \<times> world" where
  "sql env stmt w =
     (let w1 = w\<lparr>trace := trace w @ [Sql stmt]\<rparr>
      in if sql_throws env stmt (invoices w) then (QueryError, w1)
         else (QueryOk, w1\<lparr>invoices := run_statement env stmt (invoices w)\<rparr>))"

definition console_log :: "world \<Rightarrow> world" where
  "console_log w = w\<lparr>trace := trace w @ [ConsoleLog]\<rparr>"

definition revalidatePath :: "string \<Rightarrow> world \<Rightarrow> world" where
  "revalidatePath path w = w\<lparr>trace := trace w @ [RevalidatePath path]\<rparr>"

text \<open>A handler either returns a value or leaves through \<open>redirect\<close>.\<close>

datatype 'a outcome = Returned 'a | Redirected string

definition redirect :: "string \<Rightarrow> world \<Rightarrow> 'a outcome \<times> world" where
  "redirect path w = (Redirected path, w\<lparr>trace := trace w @ [Redirect path]\<rparr>)"

subsection \<open>The handlers\<close>

definition invoicesPath :: string where
  "invoicesPath = ''/dashboard/invoices''"

definition createInvoice ::
  "action_state \<Rightarrow> form_data \<Rightarrow> environment \<Rightarrow> world \<Rightarrow> action_state outcome \<times> world" where
  "createInvoice prevState formData env w =
     (case CreateInvoice_safeParse (formData_get formData ''customerId'')
             (formData_get formData ''amount'') (formData_get formData ''status'') of
        Inl fieldErrors \<Rightarrow>
          (Returned \<lparr>message = Some ''Missing Fields. Failed to Create Invoice.'',
                     errors = Some fieldErrors\<rparr>, w)
      | Inr data \<Rightarrow>
          (let amountInCents = js_times (data_amount data) (Finite 100);
               date = takeWhile (\<lambda>c. c \<noteq> CHR ''T'') (now_iso env)
           in case sql env (InsertInvoice (data_customerId data) amountInCents
                              (data_status data) date) w of
                (QueryError, w1) \<Rightarrow>
                  (Returned \<lparr>message = Some ''Database Error: Failed to Create Invoice.'',
                             errors = None\<rparr>, console_log w1)
              | (QueryOk, w1) \<Rightarrow> redirect invoicesPath (revalidatePath invoicesPath w1)))"

definition updateInvoice ::
  "string \<Rightarrow> action_state \<Rightarrow> form_data \<Rightarrow> environment \<Rightarrow> world \<Rightarrow> action_state outcome \<times> world" where
  "updateInvoice ident prevState formData env w =
     (case UpdateInvoice_safeParse (formData_get formData ''customerId'')
             (formData_get formData ''amount'') (formData_get formData ''status'') of
        Inl fieldErrors \<Rightarrow>
          (Returned \<lparr>message = Some ''Missing fields. Failed to update invoice'',
                     errors = Some fieldErrors\<rparr>, w)
      | Inr data \<Rightarrow>
          (let amountInCents = Math_round (js_times (data_amount data) (Finite 100))
           in case sql env (UpdateInvoiceWhereId (data_customerId data) amountInCents
                              (data_status data) ident) w of
                (QueryError, w1) \<Rightarrow>
                  (Returned \<lparr>message = Some ''Database Error: Failed to Update Invoice.'',
                             errors = None\<rparr>, console_log w1)
              | (QueryOk, w1) \<Rightarrow> redirect invoicesPath (revalidatePath invoicesPath w1)))"

definition deleteInvoice ::
  "string \<Rightarrow> environment \<Rightarrow> world \<Rightarrow> action_state outcome \<times> world" where
  "deleteInvoice ident env w =
     (case sql env (DeleteInvoiceWhereId ident) w of
        (QueryOk, w1) \<Rightarrow>
          (Returned \<lparr>message = Some ''Deleted Invoice.'', errors = None\<rparr>,
           revalidatePath ''/dashboard/invoices'' w1)
      | (QueryError, w1) \<Rightarrow>
          (Returned \<lparr>message = Some '' Database Error: Failed to Delete Invoice'',
                     errors = None\<rparr>, console_log w1))"

text \<open>
  \<open>authenticate\<close>: \<open>signIn\<close> belongs to another module and is a parameter. It resolves,
  throws an \<open>AuthError\<close> carrying its \<open>type\<close>, or throws something else (the redirect
  signal of a successful sign-in is such a value). The two \<open>console.log\<close>-free outcomes
  of the handler are a returned value (\<open>None\<close> is \<open>undefined\<close>) and a re-thrown error.
\<close>

datatype 'e signIn_result = SignInResolved | SignInAuthError string | SignInOtherError 'e

datatype 'e auth_outcome = AuthReturned "string option" | AuthThrown 'e

definition authenticate ::
  "string option \<Rightarrow> form_data \<Rightarrow> (string \<Rightarrow> form_data \<Rightarrow> 'e signIn_result) \<Rightarrow> 'e auth_outcome" where
  "authenticate prevState formData signIn =
     (case signIn ''credentials'' formData of
        SignInResolved \<Rightarrow> AuthReturned None
      | SignInAuthError ty \<Rightarrow>
          (if ty = ''CredentialsSignin'' then AuthReturned (Some ''Invalid credentials.'')
           else AuthReturned (Some ''Something went wrong.''))
      | SignInOtherError e \<Rightarrow> AuthThrown e)"

text \<open>\<open>typeof v === "string"\<close> for a value of \<open>formData.get\<close>.\<close>

definition is_js_string :: "form_entry option \<Rightarrow> bool" where
  "is_js_string v = (case v of Some (StringEntry s) \<Rightarrow> True | _ \<Rightarrow> False)"

text \<open>
  The validation outcome as the caller observes it: the handler returned an object with
  an \<open>errors\<close> field.
\<close>

definition validation_failed :: "action_state outcome \<Rightarrow> bool" where
  "validation_failed out = (case out of Returned r \<Rightarrow> errors r \<noteq> None | Redirected p \<Rightarrow> False)"

text \<open>The events a call appended to the trace.\<close>

definition new_events :: "world \<Rightarrow> world \<Rightarrow> event list" where
  "new_events w w' = drop (length (trace w)) (trace w')"

subsection \<open>Concrete inputs\<close>

definition no_state :: action_state where
  "no_state = \<lparr>message = None, errors = None\<rparr>"

definition stale_state :: action_state where
  "stale_state = \<lparr>message = Some ''Missing Fields. Failed to Create Invoice.'',
                   errors = Some \<lparr>customerId = Some [''Please select a customer.''],
                                  amount = None, status = None\<rparr>\<rparr>"

definition empty_world :: world where
  "empty_world = \<lparr>invoices = [], trace = []\<rparr>"

definition two_rows :: world where
  "two_rows =
     \<lparr>invoices = [\<lparr>row_id = ''i1'', row_customer_id = ''c1'', row_amount = Finite 500,
                    row_status = ''pending'', row_date = ''2023-12-01''\<rparr>,
                   \<lparr>row_id = ''i2'', row_customer_id = ''c2'', row_amount = Finite 700,
                    row_status = ''paid'', row_date = ''2023-12-02''\<rparr>],
      trace = []\<rparr>"

definition reliable_env :: environment where
  "reliable_env = \<lparr>sql_throws = (\<lambda>stmt rows. False), generated_id = ''i9'',
                    now_iso = ''2024-01-02T03:04:05.000Z''\<rparr>"

definition failing_env :: environment where
  "failing_env = \<lparr>sql_throws = (\<lambda>stmt rows. True), generated_id = ''i9'',
                   now_iso = ''2024-01-02T03:04:05.000Z''\<rparr>"

definition form_of :: "string \<Rightarrow> string \<Rightarrow> string \<Rightarrow> form_data" where
  "form_of c a s =
     [(''customerId'', StringEntry c), (''amount'', StringEntry a), (''status'', StringEntry s)]"

definition form_with_extras :: "string \<Rightarrow> string \<Rightarrow> string \<Rightarrow> form_data" where
  "form_with_extras c a s =
     [(''note'', StringEntry ''urgent''), (''customerId'', StringEntry c),
      (''amount'', StringEntry a), (''attachment'', FileEntry ''scan.pdf''),
      (''status'', StringEntry s), (''amount'', StringEntry ''999'')]"

definition form_without_customer :: form_data where
  "form_without_customer = [(''amount'', StringEntry ''10''), (''status'', StringEntry ''paid'')]"

definition form_without_status :: form_data where
  "form_without_status = [(''customerId'', StringEntry ''c1''), (''amount'', StringEntry ''10'')]"

section \<open>Properties\<close>

subsection \<open>Unfolding rules and facts about the schema\<close>

lemma quotient_of_fraction_numeral:
  "quotient_of (numeral a / numeral b) = Rat.normalize (numeral a, numeral b)"
  by (metis Fract_of_int_quotient of_int_numeral quotient_of_Fract)

lemmas binary64_defs = binary64_def binary64_fraction_def binary64_pos_def binary64_value_def
  binary64_significand_def binary64_ulp_exponent_def floor_log2_def floor_log2_near_def
  round_half_even_def pow2_def bit_length.simps quotient_of_fraction_numeral Rat.normalize_def
  gcd_code_int

lemmas number_defs = binary64_defs StringToNumber_def str_trim_def is_str_whitespace_def non_decimal_literal_def
  radix_prefix_def radix_digit_def str_decimal_literal_def str_unsigned_literal_def
  str_unsigned_decimal_def is_decimal_digit_def exponent_part_def digits_value_def pow10_def
  signed_integer_def js_negate_def js_Number_def js_le_def js_times_def js_sign_def Math_round_def

lemmas schema_defs = CreateInvoice_safeParse_def UpdateInvoice_safeParse_def
  InvoiceFormSchema_safeParse_def z_string_def z_coerce_number_gt_def z_enum_def issues_of_def
  invalid_enum_value_message_def joinValues_def js_quote_def formData_get_def is_js_string_def

lemmas effect_defs = sql_def run_statement_def console_log_def revalidatePath_def redirect_def
  invoicesPath_def new_events_def Let_def

lemmas example_defs = no_state_def stale_state_def empty_world_def two_rows_def reliable_env_def
  failing_env_def form_of_def form_with_extras_def form_without_customer_def
  form_without_status_def

lemma safeParse_Inl_iff:
  "(\<exists>fe. InvoiceFormSchema_safeParse c a s = Inl fe) \<longleftrightarrow>
     (issues_of (z_string ''Please select a customer.'' c) \<noteq> None
      \<or> issues_of (z_coerce_number_gt 0 ''Please enter an amount greater than $0.'' a) \<noteq> None
      \<or> issues_of (z_enum [''pending'', ''paid''] ''Please select an invoice status'' s) \<noteq> None)"
  by (auto simp: InvoiceFormSchema_safeParse_def issues_of_def Let_def split: sum.splits)

lemma safeParse_Inl_fields:
  assumes "InvoiceFormSchema_safeParse c a s = Inl fe"
  shows "customerId fe = issues_of (z_string ''Please select a customer.'' c)"
    and "amount fe = issues_of (z_coerce_number_gt 0 ''Please enter an amount greater than $0.'' a)"
    and "status fe = issues_of (z_enum [''pending'', ''paid''] ''Please select an invoice status'' s)"
  using assms
  by (auto simp: InvoiceFormSchema_safeParse_def Let_def split: sum.splits)

lemma createInvoice_invalid:
  assumes "InvoiceFormSchema_safeParse (formData_get formData ''customerId'')
             (formData_get formData ''amount'') (formData_get formData ''status'') = Inl fe"
  shows "createInvoice prevState formData env w =
           (Returned \<lparr>message = Some ''Missing Fields. Failed to Create Invoice.'',
                      errors = Some fe\<rparr>, w)"
  using assms by (simp add: createInvoice_def CreateInvoice_safeParse_def)

lemma updateInvoice_invalid:
  assumes "InvoiceFormSchema_safeParse (formData_get formData ''customerId'')
             (formData_get formData ''amount'') (formData_get formData ''status'') = Inl fe"
  shows "updateInvoice ident prevState formData env w =
           (Returned \<lparr>message = Some ''Missing fields. Failed to update invoice'',
                      errors = Some fe\<rparr>, w)"
  using assms by (simp add: updateInvoice_def UpdateInvoice_safeParse_def)

lemma string_issue:
  "issues_of (z_string msg c) = (if is_js_string c then None else Some [msg])"
  by (auto simp: z_string_def issues_of_def is_js_string_def split: option.splits form_entry.splits)

lemma number_issue_None:
  "issues_of (z_coerce_number_gt 0 msg a) = None \<longleftrightarrow>
     js_Number a \<noteq> NaN \<and> \<not> js_le (js_Number a) (Finite 0)"
  by (auto simp: z_coerce_number_gt_def issues_of_def Let_def)

lemma amount_issue:
  assumes "js_Number a = NaN \<or> js_le (js_Number a) (Finite 0)"
  shows "\<exists>m. issues_of (z_coerce_number_gt 0 msg a) = Some [m]"
  using assms by (auto simp: z_coerce_number_gt_def issues_of_def Let_def)

lemma enum_issue:
  "issues_of (z_enum vals msg s) =
     (case s of
        Some (StringEntry x) \<Rightarrow> if x \<in> set vals then None
                                 else Some [invalid_enum_value_message vals x]
      | _ \<Rightarrow> Some [msg])"
  by (auto simp: z_enum_def issues_of_def split: option.splits form_entry.splits)

subsection \<open>Amount in cents\<close>

text \<open>
  \<open>updateInvoice\<close> passes \<open>Math.round(data.amount * 100)\<close> to its statement.
\<close>

lemma updateInvoice_rounds:
  assumes "UpdateInvoice_safeParse (formData_get formData ''customerId'')
             (formData_get formData ''amount'') (formData_get formData ''status'') = Inr d"
  shows "hd (new_events w (snd (updateInvoice ident prevState formData env w))) =
           Sql (UpdateInvoiceWhereId (data_customerId d)
                  (Math_round (js_times (data_amount d) (Finite 100))) (data_status d) ident)"
  using assms by (simp add: updateInvoice_def effect_defs)

text \<open>
  C1. Both \<open>createInvoice\<close> and \<open>updateInvoice\<close> are to store \<open>round(amount \<times> 100)\<close>, so
  that \<open>12.345\<close> is stored as \<open>1235\<close>. \<open>createInvoice\<close> multiplies without rounding: on
  the amount \<open>12.345\<close> its \<open>INSERT\<close> carries \<open>1234.5\<close>, where \<open>Math.round\<close> of the same
  product, which \<open>updateInvoice\<close> computes, is \<open>1235\<close>.
\<close>

theorem createInvoice_stores_unrounded_amount:
  "createInvoice no_state (form_of ''c1'' ''12.345'' ''pending'') reliable_env empty_world
   = (Redirected ''/dashboard/invoices'',
      \<lparr>invoices = [\<lparr>row_id = ''i9'', row_customer_id = ''c1'', row_amount = Finite (2469 / 2),
                     row_status = ''pending'', row_date = ''2024-01-02''\<rparr>],
       trace = [Sql (InsertInvoice ''c1'' (Finite (2469 / 2)) ''pending'' ''2024-01-02''),
                RevalidatePath ''/dashboard/invoices'', Redirect ''/dashboard/invoices'']\<rparr>)
   \<and> Math_round (js_times (StringToNumber ''12.345'') (Finite 100)) = Finite 1235"
  by (simp add: createInvoice_def schema_defs effect_defs number_defs example_defs)

subsection \<open>Customer\<close>

text \<open>
  What the \<open>customerId\<close> rule does reject: a field that is missing or is not a
  string. Validation then fails in both handlers without touching the world,
  \<open>errors.customerId\<close> is exactly \<open>["Please select a customer."]\<close>, and the other
  two fields carry the issues of their own rules only.
\<close>

lemma missing_customerId_rejected:
  assumes "\<not> is_js_string (formData_get formData ''customerId'')"
  shows "\<exists>fe.
           createInvoice prevState formData env w =
             (Returned \<lparr>message = Some ''Missing Fields. Failed to Create Invoice.'',
                        errors = Some fe\<rparr>, w)
           \<and> updateInvoice ident prevState formData env w =
             (Returned \<lparr>message = Some ''Missing fields. Failed to update invoice'',
                        errors = Some fe\<rparr>, w)
           \<and> customerId fe = Some [''Please select a customer.'']
           \<and> amount fe =
               issues_of (z_coerce_number_gt 0 ''Please enter an amount greater than $0.''
                            (formData_get formData ''amount''))
           \<and> status fe =
               issues_of (z_enum [''pending'', ''paid''] ''Please select an invoice status''
                            (formData_get formData ''status''))"
proof -
  let ?c = "formData_get formData ''customerId''"
  let ?a = "formData_get formData ''amount''"
  let ?s = "formData_get formData ''status''"
  have c: "issues_of (z_string ''Please select a customer.'' ?c) = Some [''Please select a customer.'']"
    using assms by (simp add: string_issue)
  then have "\<exists>fe. InvoiceFormSchema_safeParse ?c ?a ?s = Inl fe"
    by (simp add: safeParse_Inl_iff)
  then obtain fe where fe: "InvoiceFormSchema_safeParse ?c ?a ?s = Inl fe" ..
  have "customerId fe = Some [''Please select a customer.'']"
    using safeParse_Inl_fields(1) [OF fe] c by simp
  then show ?thesis
    using createInvoice_invalid [OF fe] updateInvoice_invalid [OF fe]
      safeParse_Inl_fields(2) [OF fe] safeParse_Inl_fields(3) [OF fe]
    by blast
qed

text \<open>
  C2. A form whose \<open>customerId\<close> field is the empty string is to fail validation with
  exactly \<open>Please select a customer.\<close> under \<open>customerId\<close>. The schema gives
  \<open>z.string\<close> a message for a value that is not a string and no minimum length, so
  the empty string passes the rule: the form below validates, the row is written with
  an empty customer id, and the handler leaves through the redirect with no error at
  all.
\<close>

theorem empty_customerId_accepted:
  "createInvoice no_state (form_of [] ''10'' ''paid'') reliable_env empty_world
   = (Redirected ''/dashboard/invoices'',
      \<lparr>invoices = [\<lparr>row_id = ''i9'', row_customer_id = [], row_amount = Finite 1000,
                     row_status = ''paid'', row_date = ''2024-01-02''\<rparr>],
       trace = [Sql (InsertInvoice [] (Finite 1000) ''paid'' ''2024-01-02''),
                RevalidatePath ''/dashboard/invoices'', Redirect ''/dashboard/invoices'']\<rparr>)"
  by (simp add: createInvoice_def schema_defs effect_defs number_defs example_defs)

subsection \<open>Deleting\<close>

lemma deleteInvoice_returns:
  "\<exists>r. fst (deleteInvoice ident env w) = Returned r"
  by (simp add: deleteInvoice_def effect_defs)

lemma deleteInvoice_success:
  assumes "\<not> sql_throws env (DeleteInvoiceWhereId ident) (invoices w)"
  shows "fst (deleteInvoice ident env w) =
           Returned \<lparr>message = Some ''Deleted Invoice.'', errors = None\<rparr>"
  using assms by (simp add: deleteInvoice_def effect_defs)

text \<open>
  C3. \<open>deleteInvoice\<close> is to return exactly the message
  \<open>Database Error: Failed to Delete Invoice\<close> when the statement fails. It never throws
  and it returns \<open>Deleted Invoice.\<close> on success, but the message of its \<open>catch\<close> branch
  starts with a space, unlike the messages of the two other handlers.
\<close>

theorem deleteInvoice_failure_message:
  "deleteInvoice ''no-such-id'' failing_env empty_world
   = (Returned \<lparr>message = Some '' Database Error: Failed to Delete Invoice'', errors = None\<rparr>,
      \<lparr>invoices = [], trace = [Sql (DeleteInvoiceWhereId ''no-such-id''), ConsoleLog]\<rparr>)
   \<and> '' Database Error: Failed to Delete Invoice'' \<noteq> ''Database Error: Failed to Delete Invoice''"
  by (simp add: deleteInvoice_def effect_defs example_defs)

subsection \<open>Amount\<close>

text \<open>
  C4. When the amount input coerces to \<open>NaN\<close> (it is not numeric) or to a number
  \<open>\<le> 0\<close>, both handlers return a result whose \<open>errors.amount\<close> is a non-empty list and
  leave the world as it was: no statement is issued and no row changes.
\<close>

theorem invalid_amount_rejected_without_write:
  assumes "js_Number (formData_get formData ''amount'') = NaN
           \<or> js_le (js_Number (formData_get formData ''amount'')) (Finite 0)"
  shows "\<exists>fe msgs.
           createInvoice prevState formData env w =
             (Returned \<lparr>message = Some ''Missing Fields. Failed to Create Invoice.'',
                        errors = Some fe\<rparr>, w)
           \<and> updateInvoice ident prevState formData env w =
             (Returned \<lparr>message = Some ''Missing fields. Failed to update invoice'',
                        errors = Some fe\<rparr>, w)
           \<and> amount fe = Some msgs \<and> msgs \<noteq> []"
proof -
  let ?c = "formData_get formData ''customerId''"
  let ?a = "formData_get formData ''amount''"
  let ?s = "formData_get formData ''status''"
  from amount_issue [OF assms] obtain m where
    m: "issues_of (z_coerce_number_gt 0 ''Please enter an amount greater than $0.'' ?a) = Some [m]"
    by blast
  then have "\<exists>fe. InvoiceFormSchema_safeParse ?c ?a ?s = Inl fe"
    by (simp add: safeParse_Inl_iff)
  then obtain fe where fe: "InvoiceFormSchema_safeParse ?c ?a ?s = Inl fe" ..
  have "amount fe = Some [m]"
    using safeParse_Inl_fields(2) [OF fe] m by simp
  then show ?thesis
    using createInvoice_invalid [OF fe] updateInvoice_invalid [OF fe] by blast
qed

theorem invalid_amount_rejected_without_write_witness:
  "js_le (js_Number (formData_get (form_of ''c1'' ''-5'' ''paid'') ''amount'')) (Finite 0)
   \<and> js_Number (formData_get (form_of ''c1'' ''abc'' ''paid'') ''amount'') = NaN
   \<and> (\<exists>fe msgs.
         createInvoice no_state (form_of ''c1'' ''-5'' ''paid'') reliable_env two_rows =
           (Returned \<lparr>message = Some ''Missing Fields. Failed to Create Invoice.'',
                      errors = Some fe\<rparr>, two_rows)
         \<and> updateInvoice ''i1'' no_state (form_of ''c1'' ''-5'' ''paid'') reliable_env two_rows =
           (Returned \<lparr>message = Some ''Missing fields. Failed to update invoice'',
                      errors = Some fe\<rparr>, two_rows)
         \<and> amount fe = Some msgs \<and> msgs \<noteq> [])
   \<and> (\<exists>fe msgs.
         createInvoice no_state (form_of ''c1'' ''abc'' ''paid'') reliable_env two_rows =
           (Returned \<lparr>message = Some ''Missing Fields. Failed to Create Invoice.'',
                      errors = Some fe\<rparr>, two_rows)
         \<and> updateInvoice ''i1'' no_state (form_of ''c1'' ''abc'' ''paid'') reliable_env two_rows =
           (Returned \<lparr>message = Some ''Missing fields. Failed to update invoice'',
                      errors = Some fe\<rparr>, two_rows)
         \<and> amount fe = Some msgs \<and> msgs \<noteq> [])"
proof -
  have h: "js_le (js_Number (formData_get (form_of ''c1'' ''-5'' ''paid'') ''amount'')) (Finite 0)"
    by (simp add: formData_get_def form_of_def number_defs)
  have n: "js_Number (formData_get (form_of ''c1'' ''abc'' ''paid'') ''amount'') = NaN"
    by (simp add: formData_get_def form_of_def number_defs)
  from h have h': "js_Number (formData_get (form_of ''c1'' ''-5'' ''paid'') ''amount'') = NaN
      \<or> js_le (js_Number (formData_get (form_of ''c1'' ''-5'' ''paid'') ''amount'')) (Finite 0)" ..
  from n have n': "js_Number (formData_get (form_of ''c1'' ''abc'' ''paid'') ''amount'') = NaN
      \<or> js_le (js_Number (formData_get (form_of ''c1'' ''abc'' ''paid'') ''amount'')) (Finite 0)" ..
  from invalid_amount_rejected_without_write [OF h', of no_state reliable_env two_rows "''i1''"]
    invalid_amount_rejected_without_write [OF n', of no_state reliable_env two_rows "''i1''"] h n
  show ?thesis by blast
qed

subsection \<open>Status\<close>

text \<open>
  C7, as amended. For every status value outside \<open>{pending, paid}\<close> validation fails in
  both handlers and \<open>errors.status\<close> holds one message: \<open>Please select an invoice status\<close>
  when the value is missing or is not a string, and zod's own invalid-enum message when
  it is another string.
\<close>

theorem invalid_status_rejected:
  assumes "formData_get formData ''status''
             \<notin> {Some (StringEntry ''pending''), Some (StringEntry ''paid'')}"
  shows "\<exists>fe.
           createInvoice prevState formData env w =
             (Returned \<lparr>message = Some ''Missing Fields. Failed to Create Invoice.'',
                        errors = Some fe\<rparr>, w)
           \<and> updateInvoice ident prevState formData env w =
             (Returned \<lparr>message = Some ''Missing fields. Failed to update invoice'',
                        errors = Some fe\<rparr>, w)
           \<and> status fe =
               Some [case formData_get formData ''status'' of
                       Some (StringEntry x) \<Rightarrow>
                         invalid_enum_value_message [''pending'', ''paid''] x
                     | _ \<Rightarrow> ''Please select an invoice status'']"
proof -
  let ?c = "formData_get formData ''customerId''"
  let ?a = "formData_get formData ''amount''"
  let ?s = "formData_get formData ''status''"
  let ?m = "case ?s of
              Some (StringEntry x) \<Rightarrow> invalid_enum_value_message [''pending'', ''paid''] x
            | _ \<Rightarrow> ''Please select an invoice status''"
  have s: "issues_of (z_enum [''pending'', ''paid''] ''Please select an invoice status'' ?s) =
      Some [?m]"
    using assms by (auto simp: enum_issue split: option.splits form_entry.splits)
  then have "\<exists>fe. InvoiceFormSchema_safeParse ?c ?a ?s = Inl fe"
    by (simp add: safeParse_Inl_iff)
  then obtain fe where fe: "InvoiceFormSchema_safeParse ?c ?a ?s = Inl fe" ..
  have "status fe = Some [?m]"
    using safeParse_Inl_fields(3) [OF fe] s by simp
  then show ?thesis
    using createInvoice_invalid [OF fe] updateInvoice_invalid [OF fe] by blast
qed

theorem invalid_status_rejected_witness:
  "formData_get form_without_status ''status''
     \<notin> {Some (StringEntry ''pending''), Some (StringEntry ''paid'')}
   \<and> (\<exists>fe.
         createInvoice no_state form_without_status reliable_env empty_world =
           (Returned \<lparr>message = Some ''Missing Fields. Failed to Create Invoice.'',
                      errors = Some fe\<rparr>, empty_world)
         \<and> updateInvoice ''i1'' no_state form_without_status reliable_env empty_world =
           (Returned \<lparr>message = Some ''Missing fields. Failed to update invoice'',
                      errors = Some fe\<rparr>, empty_world)
         \<and> status fe = Some [''Please select an invoice status''])"
proof -
  have h: "formData_get form_without_status ''status''
     \<notin> {Some (StringEntry ''pending''), Some (StringEntry ''paid'')}"
    by (simp add: formData_get_def form_without_status_def)
  have n: "formData_get form_without_status ''status'' = None"
    by (simp add: formData_get_def form_without_status_def)
  from invalid_status_rejected [OF h, of no_state reliable_env empty_world "''i1''"] h
  show ?thesis by (simp add: n)
qed

text \<open>
  The claim as stated fails for a string outside the set: the message is then zod's
  default for an invalid enum value, not \<open>Please select an invoice status\<close>.
\<close>

theorem unknown_status_default_message:
  "createInvoice no_state (form_of ''c1'' ''10'' ''overdue'') reliable_env empty_world
   = (Returned \<lparr>message = Some ''Missing Fields. Failed to Create Invoice.'',
                errors = Some \<lparr>customerId = None, amount = None,
                  status = Some [''Invalid enum value. Expected '' @ js_quote ''pending''
                                 @ '' | '' @ js_quote ''paid'' @ '', received ''
                                 @ js_quote ''overdue'']\<rparr>\<rparr>, empty_world)
   \<and> ''Invalid enum value. Expected '' @ js_quote ''pending'' @ '' | '' @ js_quote ''paid''
        @ '', received '' @ js_quote ''overdue'' \<noteq> ''Please select an invoice status''"
  by (simp add: createInvoice_def schema_defs effect_defs number_defs example_defs)

subsection \<open>Invalidation and redirect\<close>



subsection \<open>Authentication\<close>

text \<open>
  C6. \<open>authenticate\<close> returns \<open>Invalid credentials.\<close> for an authentication error of
  type \<open>CredentialsSignin\<close>, returns \<open>Something went wrong.\<close> for an authentication
  error of any other type, and throws again every error that is not an authentication
  error.
\<close>

theorem authenticate_maps_errors:
  "(signIn ''credentials'' formData = SignInAuthError ''CredentialsSignin'' \<longrightarrow>
      authenticate prevState formData signIn = AuthReturned (Some ''Invalid credentials.''))
   \<and> (\<forall>ty. ty \<noteq> ''CredentialsSignin'' \<and> signIn ''credentials'' formData = SignInAuthError ty \<longrightarrow>
      authenticate prevState formData signIn = AuthReturned (Some ''Something went wrong.''))
   \<and> (\<forall>e. signIn ''credentials'' formData = SignInOtherError e \<longrightarrow>
      authenticate prevState formData signIn = AuthThrown e)"
  by (simp add: authenticate_def)

theorem authenticate_maps_errors_witness:
  "authenticate None [(''email'', StringEntry ''nobody@example.com'')]
       (\<lambda>provider fd. SignInAuthError ''CredentialsSignin'' :: string signIn_result)
     = AuthReturned (Some ''Invalid credentials.'')
   \<and> ''CallbackRouteError'' \<noteq> ''CredentialsSignin''
   \<and> authenticate None [(''email'', StringEntry ''nobody@example.com'')]
       (\<lambda>provider fd. SignInAuthError ''CallbackRouteError'' :: string signIn_result)
     = AuthReturned (Some ''Something went wrong.'')
   \<and> authenticate (Some ''Invalid credentials.'') [(''email'', StringEntry ''nobody@example.com'')]
       (\<lambda>provider fd. SignInOtherError ''connection refused'')
     = AuthThrown ''connection refused''"
  using authenticate_maps_errors [of "\<lambda>provider fd. SignInAuthError ''CredentialsSignin'' :: string signIn_result"
      "[(''email'', StringEntry ''nobody@example.com'')]" None]
    authenticate_maps_errors [of "\<lambda>provider fd. SignInAuthError ''CallbackRouteError'' :: string signIn_result"
      "[(''email'', StringEntry ''nobody@example.com'')]" None]
    authenticate_maps_errors [of "\<lambda>provider fd. SignInOtherError ''connection refused''"
      "[(''email'', StringEntry ''nobody@example.com'')]" "Some ''Invalid credentials.''"]
  by simp

subsection \<open>Frame of the update\<close>

text \<open>
  C8. After a successful \<open>updateInvoice\<close> (one that leaves through the redirect) the
  table has the same rows in the same positions; every row keeps its \<open>id\<close> and its
  \<open>date\<close>, and a row whose \<open>id\<close> differs from the argument is unchanged. So only
  \<open>customer_id\<close>, \<open>amount\<close> and \<open>status\<close> of the matching row can differ.
\<close>

theorem updateInvoice_frame:
  assumes "updateInvoice ident prevState formData env w = (Redirected p, w')"
  shows "length (invoices w') = length (invoices w)
         \<and> (\<forall>i < length (invoices w).
               row_id (invoices w' ! i) = row_id (invoices w ! i)
               \<and> row_date (invoices w' ! i) = row_date (invoices w ! i)
               \<and> (row_id (invoices w ! i) \<noteq> ident \<longrightarrow> invoices w' ! i = invoices w ! i))"
  using assms
  by (auto simp: updateInvoice_def sql_def run_statement_def console_log_def revalidatePath_def
        redirect_def Let_def split: sum.splits if_splits)

theorem updateInvoice_frame_witness:
  "updateInvoice ''i1'' no_state (form_of ''c7'' ''12.34'' ''paid'') reliable_env two_rows
     = (Redirected invoicesPath,
        snd (updateInvoice ''i1'' no_state (form_of ''c7'' ''12.34'' ''paid'') reliable_env two_rows))
   \<and> length (invoices (snd (updateInvoice ''i1'' no_state (form_of ''c7'' ''12.34'' ''paid'')
                              reliable_env two_rows))) = 2
   \<and> row_id (invoices two_rows ! 0) = ''i1''
   \<and> row_date (invoices (snd (updateInvoice ''i1'' no_state (form_of ''c7'' ''12.34'' ''paid'')
                                reliable_env two_rows)) ! 0) = ''2023-12-01''
   \<and> row_amount (invoices (snd (updateInvoice ''i1'' no_state (form_of ''c7'' ''12.34'' ''paid'')
                                  reliable_env two_rows)) ! 0) = Finite 1234
   \<and> row_id (invoices two_rows ! 1) \<noteq> ''i1''
   \<and> invoices (snd (updateInvoice ''i1'' no_state (form_of ''c7'' ''12.34'' ''paid'')
                      reliable_env two_rows)) ! 1 = invoices two_rows ! 1"
proof -
  let ?w' = "snd (updateInvoice ''i1'' no_state (form_of ''c7'' ''12.34'' ''paid'') reliable_env two_rows)"
  have u: "updateInvoice ''i1'' no_state (form_of ''c7'' ''12.34'' ''paid'') reliable_env two_rows
      = (Redirected invoicesPath, ?w')"
    by (simp add: updateInvoice_def schema_defs effect_defs number_defs example_defs floor_eq_iff)
  have a: "row_amount (invoices ?w' ! 0) = Finite 1234"
    by (simp add: updateInvoice_def schema_defs effect_defs number_defs example_defs floor_eq_iff)
  have l: "length (invoices two_rows) = 2" "row_id (invoices two_rows ! 0) = ''i1''"
    "row_id (invoices two_rows ! 1) \<noteq> ''i1''" "row_date (invoices two_rows ! 0) = ''2023-12-01''"
    by (simp_all add: two_rows_def)
  from updateInvoice_frame [OF u] have
    f: "length (invoices ?w') = length (invoices two_rows)"
    and g: "\<forall>i < length (invoices two_rows).
               row_id (invoices ?w' ! i) = row_id (invoices two_rows ! i)
               \<and> row_date (invoices ?w' ! i) = row_date (invoices two_rows ! i)
               \<and> (row_id (invoices two_rows ! i) \<noteq> ''i1'' \<longrightarrow> invoices ?w' ! i = invoices two_rows ! i)"
    by blast+
  from g l have "row_date (invoices ?w' ! 0) = ''2023-12-01''"
    and "invoices ?w' ! 1 = invoices two_rows ! 1"
    by auto
  with u a f l show ?thesis by simp
qed

subsection \<open>What the handlers read\<close>

lemma createInvoice_Returned_cases:
  assumes "fst (createInvoice prevState formData env w) = Returned r"
  shows "(\<exists>fe. InvoiceFormSchema_safeParse (formData_get formData ''customerId'')
             (formData_get formData ''amount'') (formData_get formData ''status'') = Inl fe
           \<and> r = \<lparr>message = Some ''Missing Fields. Failed to Create Invoice.'', errors = Some fe\<rparr>)
         \<or> ((\<exists>d. InvoiceFormSchema_safeParse (formData_get formData ''customerId'')
             (formData_get formData ''amount'') (formData_get formData ''status'') = Inr d)
           \<and> r = \<lparr>message = Some ''Database Error: Failed to Create Invoice.'', errors = None\<rparr>)"
  using assms
  by (auto simp: createInvoice_def CreateInvoice_safeParse_def sql_def redirect_def Let_def
        split: sum.splits if_splits)

lemma updateInvoice_Returned_cases:
  assumes "fst (updateInvoice ident prevState formData env w) = Returned r"
  shows "(\<exists>fe. InvoiceFormSchema_safeParse (formData_get formData ''customerId'')
             (formData_get formData ''amount'') (formData_get formData ''status'') = Inl fe
           \<and> r = \<lparr>message = Some ''Missing fields. Failed to update invoice'', errors = Some fe\<rparr>)
         \<or> ((\<exists>d. InvoiceFormSchema_safeParse (formData_get formData ''customerId'')
             (formData_get formData ''amount'') (formData_get formData ''status'') = Inr d)
           \<and> r = \<lparr>message = Some ''Database Error: Failed to Update Invoice.'', errors = None\<rparr>)"
  using assms
  by (auto simp: updateInvoice_def UpdateInvoice_safeParse_def sql_def redirect_def Let_def
        split: sum.splits if_splits)

lemma createInvoice_validation_failed:
  "validation_failed (fst (createInvoice prevState formData env w)) \<longleftrightarrow>
     (\<exists>fe. InvoiceFormSchema_safeParse (formData_get formData ''customerId'')
             (formData_get formData ''amount'') (formData_get formData ''status'') = Inl fe)"
  by (auto simp: validation_failed_def createInvoice_def CreateInvoice_safeParse_def sql_def
        redirect_def Let_def split: sum.splits if_splits)

lemma updateInvoice_validation_failed:
  "validation_failed (fst (updateInvoice ident prevState formData env w)) \<longleftrightarrow>
     (\<exists>fe. InvoiceFormSchema_safeParse (formData_get formData ''customerId'')
             (formData_get formData ''amount'') (formData_get formData ''status'') = Inl fe)"
  by (auto simp: validation_failed_def updateInvoice_def UpdateInvoice_safeParse_def sql_def
        redirect_def Let_def split: sum.splits if_splits)

text \<open>
  C9. Two calls of \<open>createInvoice\<close>, or of \<open>updateInvoice\<close> with the same id, whose forms
  agree on \<open>customerId\<close>, \<open>amount\<close> and \<open>status\<close>: in the same environment and world
  they do the same, whatever the previous states and the other entries of the forms;
  and in any two environments and worlds the validation outcome is the same and, when
  both calls return an object, the two objects are equal.
\<close>

theorem handlers_depend_on_three_fields_only:
  assumes "formData_get f1 ''customerId'' = formData_get f2 ''customerId''"
    and "formData_get f1 ''amount'' = formData_get f2 ''amount''"
    and "formData_get f1 ''status'' = formData_get f2 ''status''"
  shows "createInvoice s1 f1 env w = createInvoice s2 f2 env w
       \<and> updateInvoice ident s1 f1 env w = updateInvoice ident s2 f2 env w
       \<and> validation_failed (fst (createInvoice s1 f1 e1 w1))
           = validation_failed (fst (createInvoice s2 f2 e2 w2))
       \<and> validation_failed (fst (updateInvoice ident s1 f1 e1 w1))
           = validation_failed (fst (updateInvoice ident s2 f2 e2 w2))
       \<and> (\<forall>r1 r2. fst (createInvoice s1 f1 e1 w1) = Returned r1
                   \<and> fst (createInvoice s2 f2 e2 w2) = Returned r2 \<longrightarrow> r1 = r2)
       \<and> (\<forall>r1 r2. fst (updateInvoice ident s1 f1 e1 w1) = Returned r1
                   \<and> fst (updateInvoice ident s2 f2 e2 w2) = Returned r2 \<longrightarrow> r1 = r2)"
proof -
  have "createInvoice s1 f1 env w = createInvoice s2 f2 env w"
    using assms by (simp add: createInvoice_def)
  moreover have "updateInvoice ident s1 f1 env w = updateInvoice ident s2 f2 env w"
    using assms by (simp add: updateInvoice_def)
  moreover have "validation_failed (fst (createInvoice s1 f1 e1 w1))
      = validation_failed (fst (createInvoice s2 f2 e2 w2))"
    using assms by (simp add: createInvoice_validation_failed)
  moreover have "validation_failed (fst (updateInvoice ident s1 f1 e1 w1))
      = validation_failed (fst (updateInvoice ident s2 f2 e2 w2))"
    using assms by (simp add: updateInvoice_validation_failed)
  moreover have "r1 = r2"
    if "fst (createInvoice s1 f1 e1 w1) = Returned r1 \<and> fst (createInvoice s2 f2 e2 w2) = Returned r2"
    for r1 r2
    using createInvoice_Returned_cases [of s1 f1 e1 w1 r1]
      createInvoice_Returned_cases [of s2 f2 e2 w2 r2] that assms
    by auto
  moreover have "r1 = r2"
    if "fst (updateInvoice ident s1 f1 e1 w1) = Returned r1
        \<and> fst (updateInvoice ident s2 f2 e2 w2) = Returned r2"
    for r1 r2
    using updateInvoice_Returned_cases [of ident s1 f1 e1 w1 r1]
      updateInvoice_Returned_cases [of ident s2 f2 e2 w2 r2] that assms
    by auto
  ultimately show ?thesis by blast
qed

theorem handlers_depend_on_three_fields_only_witness:
  "formData_get (form_with_extras ''c1'' ''0'' ''paid'') ''customerId''
     = formData_get (form_of ''c1'' ''0'' ''paid'') ''customerId''
   \<and> formData_get (form_with_extras ''c1'' ''0'' ''paid'') ''amount''
     = formData_get (form_of ''c1'' ''0'' ''paid'') ''amount''
   \<and> formData_get (form_with_extras ''c1'' ''0'' ''paid'') ''status''
     = formData_get (form_of ''c1'' ''0'' ''paid'') ''status''
   \<and> createInvoice no_state (form_with_extras ''c1'' ''0'' ''paid'') reliable_env two_rows
     = createInvoice stale_state (form_of ''c1'' ''0'' ''paid'') reliable_env two_rows
   \<and> fst (updateInvoice ''i1'' no_state (form_with_extras ''c1'' ''0'' ''paid'') reliable_env empty_world)
     = Returned \<lparr>message = Some ''Missing fields. Failed to update invoice'',
                 errors = Some \<lparr>customerId = None,
                                amount = Some [''Please enter an amount greater than $0.''],
                                status = None\<rparr>\<rparr>
   \<and> fst (updateInvoice ''i1'' stale_state (form_of ''c1'' ''0'' ''paid'') failing_env two_rows)
     = Returned \<lparr>message = Some ''Missing fields. Failed to update invoice'',
                 errors = Some \<lparr>customerId = None,
                                amount = Some [''Please enter an amount greater than $0.''],
                                status = None\<rparr>\<rparr>"
proof -
  let ?f1 = "form_with_extras ''c1'' ''0'' ''paid''"
  let ?f2 = "form_of ''c1'' ''0'' ''paid''"
  let ?r = "\<lparr>message = Some ''Missing fields. Failed to update invoice'',
                 errors = Some \<lparr>customerId = None,
                                amount = Some [''Please enter an amount greater than $0.''],
                                status = None\<rparr>\<rparr>"
  have h: "formData_get ?f1 ''customerId'' = formData_get ?f2 ''customerId''"
    "formData_get ?f1 ''amount'' = formData_get ?f2 ''amount''"
    "formData_get ?f1 ''status'' = formData_get ?f2 ''status''"
    by (simp_all add: formData_get_def form_with_extras_def form_of_def)
  have u1: "fst (updateInvoice ''i1'' no_state ?f1 reliable_env empty_world) = Returned ?r"
    by (simp add: updateInvoice_def schema_defs effect_defs number_defs example_defs)
  note t = handlers_depend_on_three_fields_only [OF h, of no_state reliable_env two_rows stale_state
      "''i1''" reliable_env empty_world failing_env two_rows]
  from t have c: "createInvoice no_state ?f1 reliable_env two_rows
      = createInvoice stale_state ?f2 reliable_env two_rows"
    by blast
  obtain r2 where r2: "fst (updateInvoice ''i1'' stale_state ?f2 failing_env two_rows) = Returned r2"
    by (simp add: updateInvoice_def schema_defs effect_defs number_defs example_defs)
  from t u1 r2 have "?r = r2" by blast
  with r2 have u2: "fst (updateInvoice ''i1'' stale_state ?f2 failing_env two_rows) = Returned ?r"
    by simp
  from h c u1 u2 show ?thesis by blast
qed

subsection \<open>The empty amount\<close>

lemma Number_empty_string: "js_Number (Some (StringEntry [])) = Finite 0"
  by (simp add: js_Number_def StringToNumber_def str_trim_def)

text \<open>
  C10. When the \<open>amount\<close> field is present and is the empty string, \<open>Number\<close> coerces it
  to \<open>0\<close>, and validation fails in both handlers with \<open>errors.amount\<close> exactly
  \<open>["Please enter an amount greater than $0."]\<close>: the message of the \<open>gt(0)\<close> rule,
  not one for a missing field or a wrong type.
\<close>

theorem empty_amount_coerced_to_zero:
  assumes "formData_get formData ''amount'' = Some (StringEntry [])"
  shows "js_Number (formData_get formData ''amount'') = Finite 0
         \<and> (\<exists>fe.
               createInvoice prevState formData env w =
                 (Returned \<lparr>message = Some ''Missing Fields. Failed to Create Invoice.'',
                            errors = Some fe\<rparr>, w)
               \<and> updateInvoice ident prevState formData env w =
                 (Returned \<lparr>message = Some ''Missing fields. Failed to update invoice'',
                            errors = Some fe\<rparr>, w)
               \<and> amount fe = Some [''Please enter an amount greater than $0.''])"
proof -
  let ?c = "formData_get formData ''customerId''"
  let ?a = "formData_get formData ''amount''"
  let ?s = "formData_get formData ''status''"
  have z: "js_Number ?a = Finite 0"
    using assms by (simp add: Number_empty_string)
  then have a: "issues_of (z_coerce_number_gt 0 ''Please enter an amount greater than $0.'' ?a)
      = Some [''Please enter an amount greater than $0.'']"
    by (simp add: z_coerce_number_gt_def issues_of_def js_le_def)
  then have "\<exists>fe. InvoiceFormSchema_safeParse ?c ?a ?s = Inl fe"
    by (simp add: safeParse_Inl_iff)
  then obtain fe where fe: "InvoiceFormSchema_safeParse ?c ?a ?s = Inl fe" ..
  have "amount fe = Some [''Please enter an amount greater than $0.'']"
    using safeParse_Inl_fields(2) [OF fe] a by simp
  then show ?thesis
    using z createInvoice_invalid [OF fe] updateInvoice_invalid [OF fe] by blast
qed

theorem empty_amount_coerced_to_zero_witness:
  "formData_get (form_of ''c1'' [] ''paid'') ''amount'' = Some (StringEntry [])
   \<and> js_Number (formData_get (form_of ''c1'' [] ''paid'') ''amount'') = Finite 0
   \<and> createInvoice no_state (form_of ''c1'' [] ''paid'') reliable_env two_rows =
       (Returned \<lparr>message = Some ''Missing Fields. Failed to Create Invoice.'',
                  errors = Some \<lparr>customerId = None,
                                 amount = Some [''Please enter an amount greater than $0.''],
                                 status = None\<rparr>\<rparr>, two_rows)"
proof -
  have h: "formData_get (form_of ''c1'' [] ''paid'') ''amount'' = Some (StringEntry [])"
    by (simp add: formData_get_def form_of_def)
  from empty_amount_coerced_to_zero [OF h, of no_state reliable_env two_rows "''i1''"]
  obtain fe where
    z: "js_Number (formData_get (form_of ''c1'' [] ''paid'') ''amount'') = Finite 0"
    and c: "createInvoice no_state (form_of ''c1'' [] ''paid'') reliable_env two_rows =
       (Returned \<lparr>message = Some ''Missing Fields. Failed to Create Invoice.'',
                  errors = Some fe\<rparr>, two_rows)"
    and a: "amount fe = Some [''Please enter an amount greater than $0.'']"
    by blast
  have "createInvoice no_state (form_of ''c1'' [] ''paid'') reliable_env two_rows =
       (Returned \<lparr>message = Some ''Missing Fields. Failed to Create Invoice.'',
                  errors = Some \<lparr>customerId = None,
                                 amount = Some [''Please enter an amount greater than $0.''],
                                 status = None\<rparr>\<rparr>, two_rows)"
    by (simp add: createInvoice_def schema_defs effect_defs number_defs example_defs)
  with h z show ?thesis by blast
qed

end
